theory Spec2Isabelle
  imports Complex_Main "HOL-Library.Word"
begin

section \<open>JavaScript values used by the token image server\<close>

text \<open>
  The server is TypeScript running on a JavaScript engine. The parts of the language the
  code relies on are written out here: strings with ASCII case mapping, numbers as the
  result of \<open>Number(...)\<close>, property lookup on an object literal, truthiness, and exceptions
  as values.
\<close>

subsection \<open>Strings\<close>

text \<open>The lower-case form of one character: \<open>A\<close>..\<open>Z\<close> change, every other character stays.\<close>

definition lower_char :: "char \<Rightarrow> char" where
  "lower_char c =
     (case map_of (zip ''ABCDEFGHIJKLMNOPQRSTUVWXYZ'' ''abcdefghijklmnopqrstuvwxyz'') c of
        Some d \<Rightarrow> d
      | None \<Rightarrow> c)"

text \<open>
  \<open>String.prototype.toLowerCase\<close>. Strings are byte strings here, with the ASCII case
  mapping. Every key that the code compares a lower-cased string with is ASCII and holds
  no \<open>k\<close> (the one ASCII letter that a non-ASCII character lower-cases to), so the
  comparisons of the model and of the engine agree.
\<close>

definition toLowerCase :: "string \<Rightarrow> string" where
  "toLowerCase s = map lower_char s"

definition startsWith :: "string \<Rightarrow> string \<Rightarrow> bool" where
  "startsWith s p = (take (length p) s = p)"

text \<open>\<open>s.slice(1)\<close>\<close>

definition slice1 :: "string \<Rightarrow> string" where
  "slice1 s = drop 1 s"

subsection \<open>Values, property lookup and truthiness\<close>

text \<open>
  What reading \<open>obj[key]\<close> on an object literal with string values can give: an own
  property (a string), a member inherited from \<open>Object.prototype\<close>, or \<open>undefined\<close>.
\<close>

datatype jsval = Str string | Inherited string | Undefined

text \<open>The property names every object literal inherits from \<open>Object.prototype\<close>.\<close>

definition object_prototype_names :: "string list" where
  "object_prototype_names =
     [''constructor'', ''__proto__'', ''hasOwnProperty'', ''isPrototypeOf'',
      ''propertyIsEnumerable'', ''toLocaleString'', ''toString'', ''valueOf'',
      ''__defineGetter__'', ''__defineSetter__'', ''__lookupGetter__'', ''__lookupSetter__'']"

definition property_get :: "(string \<times> string) list \<Rightarrow> string \<Rightarrow> jsval" where
  "property_get obj key =
     (case map_of obj key of
        Some v \<Rightarrow> Str v
      | None \<Rightarrow> if key \<in> set object_prototype_names then Inherited key else Undefined)"

text \<open>Truthiness: the empty string and \<open>undefined\<close> are falsy, functions and objects are truthy.\<close>

fun truthy :: "jsval \<Rightarrow> bool" where
  "truthy (Str s) = (s \<noteq> [])"
| "truthy (Inherited _) = True"
| "truthy Undefined = False"

text \<open>\<open>s.split(".").pop()\<close>: the text after the last dot, the whole string when it has none.\<close>

definition split_dot_pop :: "string \<Rightarrow> string" where
  "split_dot_pop s = rev (takeWhile (\<lambda>c. c \<noteq> CHR ''.'') (rev s))"

subsection \<open>Numbers\<close>

text \<open>
  A JavaScript number: \<open>NaN\<close>, an infinity, or a finite double, which is a rational.
  \<open>-0\<close> and \<open>0\<close> are one value here; the code never tells them apart.
\<close>

datatype jsnum = NaN | PosInf | NegInf | Fin rat

fun isNaN :: "jsnum \<Rightarrow> bool" where
  "isNaN NaN = True"
| "isNaN _ = False"

text \<open>\<open>Number.isInteger\<close>\<close>

fun isInteger :: "jsnum \<Rightarrow> bool" where
  "isInteger (Fin q) = (of_int \<lfloor>q\<rfloor> = q)"
| "isInteger _ = False"

text \<open>\<open>num < 0\<close>\<close>

fun lt0 :: "jsnum \<Rightarrow> bool" where
  "lt0 (Fin q) = (q < 0)"
| "lt0 NegInf = True"
| "lt0 _ = False"

text \<open>
  A number that passed the three checks above is a non-negative integer; the model
  carries it as a \<open>nat\<close> from there on.
\<close>

fun to_nat :: "jsnum \<Rightarrow> nat" where
  "to_nat (Fin q) = nat \<lfloor>q\<rfloor>"
| "to_nat _ = 0"

subsection \<open>Exceptions\<close>

text \<open>
  What a \<open>throw\<close> or a rejected promise carries: a \<open>ZodError\<close> with the messages of its
  issues, or any other \<open>Error\<close> with its message. A computation that may throw returns
  \<open>exn + 'a\<close>, \<open>Inl\<close> being the throw.
\<close>

datatype exn = ZodError "string list" | Error string

subsection \<open>Bytes, paths and the world outside\<close>

type_synonym byte = "8 word"
type_synonym bytes = "byte list"

text \<open>
  A path is the list of the segments handed to \<open>path.join\<close>; the normalisation that
  \<open>join\<close> does on top is not modelled.
\<close>

type_synonym path = "string list"

definition join :: "string list \<Rightarrow> path" where
  "join segments = segments"

text \<open>
  The body of a \<open>GetObject\<close> response, read through
  \<open>transformToWebStream().getReader()\<close>: the chunks that successive \<open>read()\<close> calls
  deliver, and then either \<open>done\<close> (\<open>None\<close>) or a \<open>read()\<close> that rejects. A stored object
  is finite, so the chunks are a list.
\<close>

datatype body_stream = Stream "bytes list" "exn option"

record get_object_output =
  Body :: "body_stream option"
  ContentType :: "string option"
  Metadata_extension :: "string option"

text \<open>
  Everything the code reaches outside itself, as functions of what it passes:
  the built-ins \<open>Number(val)\<close> and \<open>n.toString()\<close> (also what a template literal prints
  for a number), \<open>isAddress\<close> of viem, \<open>process.cwd()\<close>, the S3 client
  (\<open>send\<close> of a \<open>GetObjectCommand\<close> and of a \<open>HeadObjectCommand\<close> on the bucket, by key) and
  \<open>readdir\<close> and \<open>readFile\<close> of \<open>node:fs/promises\<close>. All of them may answer anything,
  and the I/O ones may throw.
\<close>

record env =
  js_Number :: "string \<Rightarrow> jsnum"
  num_toString :: "nat \<Rightarrow> string"
  isAddress :: "string \<Rightarrow> bool"
  cwd :: string
  s3_get_object :: "string \<Rightarrow> exn + get_object_output"
  s3_head_object :: "string \<Rightarrow> exn + unit"
  readdir :: "path \<Rightarrow> exn + string list"
  readFile :: "path \<Rightarrow> exn + bytes"

section \<open>services/image-s3-service.ts\<close>

subsection \<open>getMimeType\<close>

definition mimeTypes :: "(string \<times> string) list" where
  "mimeTypes =
     [(''png'', ''image/png''),
      (''jpg'', ''image/jpeg''),
      (''jpeg'', ''image/jpeg''),
      (''webp'', ''image/webp''),
      (''svg'', ''image/svg+xml''),
      (''gif'', ''image/gif''),
      (''bmp'', ''image/bmp''),
      (''ico'', ''image/x-icon''),
      (''tiff'', ''image/tiff''),
      (''tif'', ''image/tiff'')]"

text \<open>
  The declared return type is \<open>string\<close>, which the engine does not enforce: the function
  returns whatever \<open>mimeTypes[...] || "application/octet-stream"\<close> evaluates to.
\<close>

definition getMimeType :: "string \<Rightarrow> jsval" where
  "getMimeType extension =
     (let cleanExtension = (if startsWith extension ''.'' then slice1 extension else extension);
          v = property_get mimeTypes (toLowerCase cleanExtension)
      in if truthy v then v else Str ''application/octet-stream'')"

text \<open>The normal form \<open>getMimeType\<close> looks up: one leading dot removed, then lower-cased.\<close>

definition normalized :: "string \<Rightarrow> string" where
  "normalized e = toLowerCase (if startsWith e ''.'' then slice1 e else e)"

subsection \<open>getImageFromS3\<close>

text \<open>What both image lookups return when they find an image.\<close>

record image =
  buffer :: bytes
  contentType :: jsval
  extension :: "string option"

text \<open>The key \<open>`${chainId}/${address.toLowerCase()}/image`\<close>.\<close>

definition object_key :: "env \<Rightarrow> nat \<Rightarrow> string \<Rightarrow> string" where
  "object_key env chainId address =
     num_toString env chainId @ ''/'' @ toLowerCase address @ ''/image''"

text \<open>
  The \<open>while (true)\<close> loop over \<open>reader.read()\<close>: it pushes each chunk, leaves at
  \<open>done\<close>, and is left by the exception when a read rejects.
\<close>

fun read_all :: "bytes list \<Rightarrow> exn option \<Rightarrow> bytes list \<Rightarrow> exn + bytes list" where
  "read_all [] None chunks = Inr chunks"
| "read_all [] (Some e) chunks = Inl e"
| "read_all (v # rest) fin chunks = read_all rest fin (chunks @ [v])"

text \<open>\<open>new Uint8Array(n)\<close>: \<open>n\<close> zero bytes.\<close>

definition new_Uint8Array :: "nat \<Rightarrow> bytes" where
  "new_Uint8Array n = replicate n 0"

text \<open>\<open>buffer.set(chunk, offset)\<close>, which throws a \<open>RangeError\<close> when the chunk does not fit.\<close>

definition uint8_set :: "bytes \<Rightarrow> bytes \<Rightarrow> nat \<Rightarrow> exn + bytes" where
  "uint8_set buf chunk offset =
     (if length buf < offset + length chunk then Inl (Error ''RangeError'')
      else Inr (take offset buf @ chunk @ drop (offset + length chunk) buf))"

text \<open>The \<open>for (const chunk of chunks)\<close> loop, with the buffer and the offset it updates.\<close>

fun copy_chunks :: "bytes list \<Rightarrow> bytes \<Rightarrow> nat \<Rightarrow> exn + bytes" where
  "copy_chunks [] buf offset = Inr buf"
| "copy_chunks (chunk # chunks) buf offset =
     (case uint8_set buf chunk offset of
        Inl e \<Rightarrow> Inl e
      | Inr buf' \<Rightarrow> copy_chunks chunks buf' (offset + length chunk))"

text \<open>\<open>chunks.reduce((acc, chunk) => acc + chunk.length, 0)\<close>\<close>

definition total_length :: "bytes list \<Rightarrow> nat" where
  "total_length chunks = foldl (\<lambda>acc chunk. acc + length chunk) 0 chunks"

text \<open>The body of the \<open>try\<close> block.\<close>

definition getImageFromS3_try :: "env \<Rightarrow> nat \<Rightarrow> string \<Rightarrow> exn + image option" where
  "getImageFromS3_try env chainId address =
     (let key = object_key env chainId address in
      case s3_get_object env key of
        Inl e \<Rightarrow> Inl e
      | Inr response \<Rightarrow>
         (case Body response of
            None \<Rightarrow> Inr None
          | Some (Stream vs fin) \<Rightarrow>
             (case read_all vs fin [] of
                Inl e \<Rightarrow> Inl e
              | Inr chunks \<Rightarrow>
                 (case copy_chunks chunks (new_Uint8Array (total_length chunks)) 0 of
                    Inl e \<Rightarrow> Inl e
                  | Inr buf \<Rightarrow>
                     (let fromHeader =
                            (case ContentType response of
                               Some ct \<Rightarrow> if ct \<noteq> [] then ct else ''application/octet-stream''
                             | None \<Rightarrow> ''application/octet-stream'')
                      in case Metadata_extension response of
                           Some ext \<Rightarrow>
                             if ext \<noteq> []
                             then Inr (Some \<lparr>buffer = buf, contentType = getMimeType ext,
                                              extension = Some ext\<rparr>)
                             else Inr (Some \<lparr>buffer = buf, contentType = Str fromHeader,
                                              extension = None\<rparr>)
                         | None \<Rightarrow>
                             Inr (Some \<lparr>buffer = buf, contentType = Str fromHeader,
                                          extension = None\<rparr>))))))"

text \<open>
  The function: the \<open>try\<close> block, and \<open>catch (error) { ...; return null; }\<close> around it.
  The result is the settled promise, \<open>Inl\<close> would be a rejection.
\<close>

definition getImageFromS3 :: "env \<Rightarrow> nat \<Rightarrow> string \<Rightarrow> exn + image option" where
  "getImageFromS3 env chainId address =
     (case getImageFromS3_try env chainId address of
        Inl e \<Rightarrow> Inr None
      | Inr r \<Rightarrow> Inr r)"

section \<open>The HTTP server\<close>

subsection \<open>getImageFromSourceDir\<close>

text \<open>
  The body of the \<open>try\<close> block. A file name that one of the three \<open>find\<close> calls returns
  starts with \<open>image.\<close>, so it is truthy and \<open>||\<close> keeps the first one found.
\<close>

definition getImageFromSourceDir_try :: "env \<Rightarrow> nat \<Rightarrow> string \<Rightarrow> exn + image option" where
  "getImageFromSourceDir_try env chainId address =
     (let tokenDir = join [cwd env, ''images'', num_toString env chainId, toLowerCase address] in
      case readdir env tokenDir of
        Inl e \<Rightarrow> Inl e
      | Inr files \<Rightarrow>
         (case (case find (\<lambda>f. startsWith f ''image.png'') files of
                  Some f \<Rightarrow> Some f
                | None \<Rightarrow>
                   (case find (\<lambda>f. startsWith f ''image.jpg'') files of
                      Some f \<Rightarrow> Some f
                    | None \<Rightarrow> find (\<lambda>f. startsWith f ''image.'') files)) of
            None \<Rightarrow> Inr None
          | Some imageFile \<Rightarrow>
             (let imagePath = join (tokenDir @ [imageFile]);
                  ext = split_dot_pop imageFile
              in case readFile env imagePath of
                   Inl e \<Rightarrow> Inl e
                 | Inr buf \<Rightarrow>
                     Inr (Some \<lparr>buffer = buf,
                                 contentType = (if ext \<noteq> [] then getMimeType ext
                                                else Str ''application/octet-stream''),
                                 extension = Some ext\<rparr>))))"

text \<open>The function: the \<open>try\<close> block, and \<open>catch { return null; }\<close> around it.\<close>

definition getImageFromSourceDir :: "env \<Rightarrow> nat \<Rightarrow> string \<Rightarrow> exn + image option" where
  "getImageFromSourceDir env chainId address =
     (case getImageFromSourceDir_try env chainId address of
        Inl e \<Rightarrow> Inr None
      | Inr r \<Rightarrow> Inr r)"

subsection \<open>The zod schemas\<close>

text \<open>
  The function given to \<open>.transform\<close> for \<open>chainId\<close>, the same in \<open>paramsSchema\<close> and
  \<open>syncParamsSchema\<close>. It signals a bad value with \<open>throw new Error(...)\<close>; the message is
  \<open>"chainId must be a valid positive integer value: " + val\<close>, a non-empty string, so
  the \<open>|| "undefined"\<close> after it never applies.
\<close>

definition chainId_transform :: "env \<Rightarrow> string \<Rightarrow> exn + nat" where
  "chainId_transform env val =
     (let num = js_Number env val in
      if isNaN num \<or> \<not> isInteger num \<or> lt0 num
      then Inl (Error (''chainId must be a valid positive integer value: '' @ val))
      else Inr (to_nat num))"

text \<open>
  \<open>syncParamsSchema.parse({chainId: c.req.param("chainId")})\<close>. The route matched, so the
  parameter is a string and \<open>z.string()\<close> accepts it. zod does not catch what a transform
  throws: the \<open>Error\<close> leaves \<open>parse\<close> as it is, and is not a \<open>ZodError\<close>.
\<close>

definition syncParamsSchema_parse :: "env \<Rightarrow> string \<Rightarrow> exn + nat" where
  "syncParamsSchema_parse env chainIdParam = chainId_transform env chainIdParam"

text \<open>
  \<open>paramsSchema.parse({chainId: ..., address: ...})\<close>. The object schema handles its keys in
  the order written: the transform of \<open>chainId\<close> runs first, and its exception ends the
  parse; a failed \<open>refine\<close> of \<open>address\<close> is an issue, thrown as a \<open>ZodError\<close>.
\<close>

definition paramsSchema_parse :: "env \<Rightarrow> string \<Rightarrow> string \<Rightarrow> exn + nat \<times> string" where
  "paramsSchema_parse env chainIdParam addressParam =
     (case chainId_transform env chainIdParam of
        Inl e \<Rightarrow> Inl e
      | Inr n \<Rightarrow>
          if isAddress env addressParam then Inr (n, addressParam)
          else Inl (ZodError [''address must be a valid Ethereum address'']))"

subsection \<open>The sync service, as the handlers see it\<close>

text \<open>
  Modelled from the spec: the \<open>status\<close> of a \<open>SyncJob\<close>, \<open>idle\<close>, \<open>running\<close>, \<open>succeeded\<close> or
  \<open>failed\<close>; \<open>services/sync-service\<close>, which declares it, is not among the sources.
\<close>

datatype job_status = Idle | Running | Succeeded | Failed

text \<open>
  Modelled from the spec: the \<open>SyncJob\<close> record of \<open>services/sync-service\<close>, a file that is
  not among the sources. The handlers read only its \<open>status\<close>. Times are milliseconds.
\<close>

record SyncJob =
  status :: job_status
  startedAt :: int
  finishedAt :: "int option"
  result :: "string option"
  error :: "string option"

text \<open>
  Modelled from the spec: what \<open>startSync\<close> resolves to, a \<open>RateLimitError\<close> object with
  the fields \<open>rateLimited\<close>, \<open>chainId\<close>, \<open>remainingTime\<close> and \<open>message\<close> that the handler
  reads, or the job record.
\<close>

datatype sync_result =
    RateLimitError (rateLimited: bool) (rl_chainId: nat) (remainingTime: int) (message: string)
  | JobRecord SyncJob

text \<open>
  Modelled from the spec: the two methods of \<open>SyncService\<close> the handlers call, over a
  service state \<open>'s\<close>. \<open>getSyncStatus\<close> is a read; \<open>startSync\<close> returns the new state
  with its settled promise. Both are inside the handler's \<open>try\<close>, so both may throw.
\<close>

record 's sync_service =
  getSyncStatus :: "nat \<Rightarrow> 's \<Rightarrow> exn + SyncJob option"
  startSync :: "nat \<Rightarrow> 's \<Rightarrow> (exn + sync_result) \<times> 's"

text \<open>The calls a handler made on the service, in order.\<close>

datatype service_call = GetSyncStatus nat | StartSync nat

subsection \<open>Responses\<close>

datatype json =
    JNull | JBool bool | JNum int | JStr string
  | JArr "json list" | JObj "(string \<times> json) list" | JJob SyncJob

record headers =
  Content_Type :: jsval
  Content_Length :: string
  Cache_Control :: string

text \<open>
  \<open>c.json(body, status)\<close>, status 200 when none is given, and
  \<open>new Response(bytes, {headers})\<close> with the header values as the code passes them.
\<close>

datatype response = JsonResponse nat json | ImageResponse bytes headers

fun json_of_sync_result :: "sync_result \<Rightarrow> json" where
  "json_of_sync_result (JobRecord j) = JJob j"
| "json_of_sync_result (RateLimitError f n r m) =
     JObj [(''rateLimited'', JBool f), (''chainId'', JNum (int n)),
           (''remainingTime'', JNum r), (''message'', JStr m)]"

subsection \<open>The sync routes\<close>

text \<open>
  \<open>result && result.rateLimited === true\<close>; a job record has no \<open>rateLimited\<close> property.
\<close>

fun isRateLimitError :: "sync_result \<Rightarrow> bool" where
  "isRateLimitError (RateLimitError f n r m) = f"
| "isRateLimitError (JobRecord j) = False"

text \<open>The \<open>catch (error)\<close> block, the same in both sync routes.\<close>

fun sync_catch :: "exn \<Rightarrow> response" where
  "sync_catch (ZodError issues) =
     JsonResponse 400 (JObj [(''error'', JStr ''Invalid parameters ''),
                             (''details'', JArr (map JStr issues))])"
| "sync_catch (Error m) =
     JsonResponse 500 (JObj [(''error'', JStr ''Internal server error''),
                             (''message'', JStr m)])"

text \<open>
  \<open>GET /sync/:chainId\<close>, from the call of \<open>startSync\<close> on. A handler returns its response,
  the service state it leaves, and the calls it made on the service.
\<close>

definition get_sync_start ::
  "'s sync_service \<Rightarrow> nat \<Rightarrow> 's \<Rightarrow> response \<times> 's \<times> service_call list" where
  "get_sync_start svc chainId s =
     (case startSync svc chainId s of
        (Inl e, s') \<Rightarrow> (sync_catch e, s', [GetSyncStatus chainId, StartSync chainId])
      | (Inr syncResult, s') \<Rightarrow>
          (if isRateLimitError syncResult
           then JsonResponse 429
                  (JObj [(''success'', JBool False),
                         (''error'', JStr ''Rate limit exceeded''),
                         (''data'', JObj [(''rateLimited'', JBool True),
                                          (''chainId'', JNum (int (rl_chainId syncResult))),
                                          (''remainingTime'', JNum (remainingTime syncResult)),
                                          (''message'', JStr (message syncResult))])])
           else JsonResponse 200
                  (JObj [(''success'', JBool True),
                         (''data'', json_of_sync_result syncResult)]),
           s', [GetSyncStatus chainId, StartSync chainId]))"

text \<open>\<open>GET /sync/:chainId\<close>\<close>

definition get_sync ::
  "env \<Rightarrow> 's sync_service \<Rightarrow> string \<Rightarrow> 's \<Rightarrow> response \<times> 's \<times> service_call list" where
  "get_sync env svc chainIdParam s =
     (case syncParamsSchema_parse env chainIdParam of
        Inl e \<Rightarrow> (sync_catch e, s, [])
      | Inr chainId \<Rightarrow>
         (case getSyncStatus svc chainId s of
            Inl e \<Rightarrow> (sync_catch e, s, [GetSyncStatus chainId])
          | Inr existingStatus \<Rightarrow>
             (case existingStatus of
                Some j \<Rightarrow>
                  if status j = Running
                  then (JsonResponse 200 (JObj [(''success'', JBool True), (''data'', JJob j)]),
                        s, [GetSyncStatus chainId])
                  else get_sync_start svc chainId s
              | None \<Rightarrow> get_sync_start svc chainId s)))"

text \<open>\<open>GET /sync/:chainId/status\<close>\<close>

definition get_sync_status ::
  "env \<Rightarrow> 's sync_service \<Rightarrow> string \<Rightarrow> 's \<Rightarrow> response \<times> 's \<times> service_call list" where
  "get_sync_status env svc chainIdParam s =
     (case syncParamsSchema_parse env chainIdParam of
        Inl e \<Rightarrow> (sync_catch e, s, [])
      | Inr chainId \<Rightarrow>
         (case getSyncStatus svc chainId s of
            Inl e \<Rightarrow> (sync_catch e, s, [GetSyncStatus chainId])
          | Inr syncStatus \<Rightarrow>
             (case syncStatus of
                None \<Rightarrow>
                  (JsonResponse 200
                     (JObj [(''success'', JBool True),
                            (''data'', JNull),
                            (''message'', JStr (''No sync process found for chain '' @
                                                num_toString env chainId))]),
                   s, [GetSyncStatus chainId])
              | Some j \<Rightarrow>
                  (JsonResponse 200 (JObj [(''success'', JBool True), (''data'', JJob j)]),
                   s, [GetSyncStatus chainId]))))"

subsection \<open>The image route\<close>

text \<open>The three places the handler may look an image up in, as it calls them.\<close>

datatype lookup = FromS3 nat string | FromSourceDir nat string | DefaultImage path

fun image_catch :: "exn \<Rightarrow> response" where
  "image_catch (ZodError issues) =
     JsonResponse 400 (JObj [(''error'', JStr ''Invalid parameters''),
                             (''details'', JArr (map JStr issues))])"
| "image_catch (Error m) =
     JsonResponse 500 (JObj [(''error'', JStr ''Internal server error'')])"

text \<open>The response for an image that one of the two lookups returned.\<close>

definition stored_response :: "env \<Rightarrow> image \<Rightarrow> response" where
  "stored_response env storedImage =
     (let imageBuffer = buffer storedImage in
      ImageResponse imageBuffer
        \<lparr>Content_Type = contentType storedImage,
         Content_Length = num_toString env (length imageBuffer),
         Cache_Control = ''public, max-age=86400''\<rparr>)"

text \<open>The path as the string that \<open>join\<close> returns, its segments separated by \<open>/\<close>.\<close>

fun path_string :: "path \<Rightarrow> string" where
  "path_string [] = []"
| "path_string [x] = x"
| "path_string (x # xs) = x @ ''/'' @ path_string xs"

definition defaultImagePath :: "env \<Rightarrow> path" where
  "defaultImagePath env = join [cwd env, ''images'', ''default.png'']"

text \<open>The response with the placeholder; \<open>readFile\<close> may throw.\<close>

definition default_response :: "env \<Rightarrow> exn + response" where
  "default_response env =
     (case readFile env (defaultImagePath env) of
        Inl e \<Rightarrow> Inl e
      | Inr defaultImageBuffer \<Rightarrow>
         (let popped = split_dot_pop (path_string (defaultImagePath env));
              fileExtension = (if popped \<noteq> [] then popped else ''png'');
              defaultContentType = getMimeType fileExtension
          in Inr (ImageResponse defaultImageBuffer
                    \<lparr>Content_Type = defaultContentType,
                     Content_Length = num_toString env (length defaultImageBuffer),
                     Cache_Control = ''public, max-age=86400''\<rparr>)))"

text \<open>\<open>GET /:chainId/:address\<close>: the response and the lookups made, in order.\<close>

definition get_image :: "env \<Rightarrow> string \<Rightarrow> string \<Rightarrow> response \<times> lookup list" where
  "get_image env chainIdParam addressParam =
     (case paramsSchema_parse env chainIdParam addressParam of
        Inl e \<Rightarrow> (image_catch e, [])
      | Inr (chainId, address) \<Rightarrow>
         (case getImageFromS3 env chainId address of
            Inl e \<Rightarrow> (image_catch e, [FromS3 chainId address])
          | Inr None \<Rightarrow>
             (case getImageFromSourceDir env chainId address of
                Inl e \<Rightarrow>
                  (image_catch e, [FromS3 chainId address, FromSourceDir chainId address])
              | Inr None \<Rightarrow>
                  (case default_response env of
                     Inl e \<Rightarrow> image_catch e
                   | Inr r \<Rightarrow> r,
                   [FromS3 chainId address, FromSourceDir chainId address,
                    DefaultImage (defaultImagePath env)])
              | Inr (Some storedImage) \<Rightarrow>
                  (stored_response env storedImage,
                   [FromS3 chainId address, FromSourceDir chainId address]))
          | Inr (Some storedImage) \<Rightarrow>
              (stored_response env storedImage, [FromS3 chainId address])))"

section \<open>The sync coordinator\<close>

text \<open>
  \<open>services/sync-service\<close> is not among the sources, so this section follows the
  specification of the coordinator: its rate limiter, its job status store and its
  \<open>start\<close> and \<open>getStatus\<close> operations. Network identifiers are natural numbers and
  times are integers, in the unit of the cooldown.
\<close>

subsection \<open>Rate limiter\<close>

text \<open>
  Modelled from the spec: the answer of the rate limiter of the absent
  \<open>services/sync-service\<close>, \<open>Allowed\<close> or \<open>Denied(remainingTime)\<close>.
\<close>

datatype decision = Allowed | Denied int

text \<open>
  Modelled from the spec: \<open>checkAndRecord(key, cooldownDuration, now)\<close> of the rate limiter
  in the absent \<open>services/sync-service\<close>. The first attempt for a key is allowed, a later
  one when \<open>now - lastAttemptAt >= cooldownDuration\<close>; an allowed attempt records
  \<open>lastAttemptAt = now\<close> in the same step, a denied one changes nothing and reports
  \<open>cooldownDuration - (now - lastAttemptAt)\<close>.
\<close>

definition checkAndRecord ::
  "nat \<Rightarrow> int \<Rightarrow> int \<Rightarrow> (nat \<rightharpoonup> int) \<Rightarrow> decision \<times> (nat \<rightharpoonup> int)" where
  "checkAndRecord key cooldownDuration now rl =
     (case rl key of
        None \<Rightarrow> (Allowed, rl(key \<mapsto> now))
      | Some lastAttemptAt \<Rightarrow>
          if now - lastAttemptAt \<ge> cooldownDuration then (Allowed, rl(key \<mapsto> now))
          else (Denied (cooldownDuration - (now - lastAttemptAt)), rl))"

subsection \<open>Job status store\<close>

text \<open>
  Modelled from the spec: \<open>get\<close>, \<open>put\<close> and \<open>compareAndSetRunning\<close> of the job status
  store in the absent \<open>services/sync-service\<close>. \<open>compareAndSetRunning\<close> stores the new job
  and answers true only if the record of the key is absent or not running, and otherwise
  answers false and changes nothing.
\<close>

definition get :: "nat \<Rightarrow> (nat \<rightharpoonup> SyncJob) \<Rightarrow> SyncJob option" where
  "get key st = st key"

definition put :: "nat \<Rightarrow> SyncJob \<Rightarrow> (nat \<rightharpoonup> SyncJob) \<Rightarrow> (nat \<rightharpoonup> SyncJob)" where
  "put key job st = st(key \<mapsto> job)"

fun is_running :: "SyncJob option \<Rightarrow> bool" where
  "is_running None = False"
| "is_running (Some j) = (status j = Running)"

definition compareAndSetRunning ::
  "nat \<Rightarrow> SyncJob \<Rightarrow> (nat \<rightharpoonup> SyncJob) \<Rightarrow> bool \<times> (nat \<rightharpoonup> SyncJob)" where
  "compareAndSetRunning key newJob st =
     (if is_running (get key st) then (False, st) else (True, put key newJob st))"

subsection \<open>Coordinator\<close>

text \<open>
  Modelled from the spec: the state the coordinator of the absent
  \<open>services/sync-service\<close> owns. Besides the store and the limiter it holds the configured
  cooldown, the wording of the rate-limit message, and \<open>inflight\<close>: the network
  identifiers of the provider calls that were launched and have not completed, one entry for
  each call.
\<close>

record coordinator =
  store :: "nat \<rightharpoonup> SyncJob"
  limiter :: "nat \<rightharpoonup> int"
  cooldown :: int
  wait_message :: "nat \<Rightarrow> int \<Rightarrow> string"
  inflight :: "nat list"

definition initial :: "int \<Rightarrow> (nat \<Rightarrow> int \<Rightarrow> string) \<Rightarrow> coordinator" where
  "initial cd msg =
     \<lparr>store = Map.empty, limiter = Map.empty, cooldown = cd, wait_message = msg, inflight = []\<rparr>"

text \<open>
  Modelled from the spec: \<open>SyncOutcome\<close>, what \<open>start\<close> of the absent coordinator returns:
  \<open>Started {job}\<close>, \<open>AlreadyRunning {job}\<close> or \<open>RateLimited {networkId, remainingTime, message}\<close>.
\<close>

datatype SyncOutcome =
    Started SyncJob
  | AlreadyRunning SyncJob
  | RateLimited nat int string

text \<open>
  Modelled from the spec: the token list provider, \<open>synchronize(networkId) -> ProviderResult | throws\<close>.
  Called by \<open>start\<close> it either launches or throws before launching; a launched call ends
  later with a result payload or with an error.
\<close>

datatype launch = Launched | ThrewBeforeLaunch string

datatype provider_result = ProviderOk string | ProviderFailed string

text \<open>Modelled from the spec: \<open>getStatus\<close> of the absent coordinator, a read of the store.\<close>

definition getStatus :: "nat \<Rightarrow> coordinator \<Rightarrow> SyncJob option" where
  "getStatus networkId c = get networkId (store c)"

text \<open>
  Modelled from the spec: \<open>start\<close> of the absent coordinator, steps 1 to 4 and 6, as one
  atomic step at time \<open>now\<close>.
  Step 1 returns the running job and touches nothing. Step 2 asks the limiter and, if
  denied, leaves the store alone. Step 3 claims the running slot with
  \<open>compareAndSetRunning\<close>, and treats losing it as already running. Step 4 launches the
  provider, the store showing \<open>running\<close> already. Step 6: if the provider throws before it
  launches, the job is failed at once and the rate-limit slot stays consumed; the outcome
  then carries the failed record, which the spec leaves open.
\<close>

definition start :: "nat \<Rightarrow> int \<Rightarrow> launch \<Rightarrow> coordinator \<Rightarrow> SyncOutcome \<times> coordinator" where
  "start networkId now how c =
     (let current = get networkId (store c) in
      case (if is_running current then current else None) of
        Some j \<Rightarrow> (AlreadyRunning j, c)
      | None \<Rightarrow>
         (case checkAndRecord networkId (cooldown c) now (limiter c) of
            (Denied remaining, rl) \<Rightarrow>
              (RateLimited networkId remaining (wait_message c networkId remaining), c)
          | (Allowed, rl) \<Rightarrow>
             (let newJob = \<lparr>status = Running, startedAt = now, finishedAt = None,
                            result = None, error = None\<rparr>
              in case compareAndSetRunning networkId newJob (store c) of
                   (False, st) \<Rightarrow>
                     (AlreadyRunning (case get networkId st of Some j \<Rightarrow> j | None \<Rightarrow> newJob),
                      c\<lparr>limiter := rl\<rparr>)
                 | (True, st) \<Rightarrow>
                     (case how of
                        Launched \<Rightarrow>
                          (Started newJob,
                           c\<lparr>store := st, limiter := rl, inflight := networkId # inflight c\<rparr>)
                      | ThrewBeforeLaunch err \<Rightarrow>
                          (let failed = newJob\<lparr>status := Failed, finishedAt := Some now,
                                                 error := Some err\<rparr>
                           in (Started failed,
                               c\<lparr>store := put networkId failed st, limiter := rl\<rparr>))))))"

text \<open>
  Modelled from the spec: step 5, the completion of a launched provider call at time
  \<open>now\<close>, an unconditional write of the terminal record.
\<close>

definition complete :: "nat \<Rightarrow> int \<Rightarrow> provider_result \<Rightarrow> coordinator \<Rightarrow> coordinator" where
  "complete networkId now res c =
     (case get networkId (store c) of
        None \<Rightarrow> c\<lparr>inflight := remove1 networkId (inflight c)\<rparr>
      | Some j \<Rightarrow>
          c\<lparr>store := put networkId
                      (case res of
                         ProviderOk payload \<Rightarrow>
                           j\<lparr>status := Succeeded, finishedAt := Some now, result := Some payload\<rparr>
                       | ProviderFailed err \<Rightarrow>
                           j\<lparr>status := Failed, finishedAt := Some now, error := Some err\<rparr>)
                      (store c),
            inflight := remove1 networkId (inflight c)\<rparr>)"

text \<open>
  Modelled from the spec: the transitions of the absent coordinator, each one atomic (the
  spec's single-threaded cooperative runtime). A completion can happen only for a provider
  call that is in flight; callers may come in any number and order, also at the same time
  \<open>now\<close>.
\<close>

datatype event =
    GetStatus nat
  | Start nat int launch
  | Complete nat int provider_result

fun step :: "event \<Rightarrow> coordinator \<Rightarrow> coordinator option" where
  "step (GetStatus n) c = Some c"
| "step (Start n now how) c = Some (snd (start n now how c))"
| "step (Complete n now res) c =
     (if n \<in> set (inflight c) then Some (complete n now res c) else None)"

fun run :: "event list \<Rightarrow> coordinator \<Rightarrow> coordinator option" where
  "run [] c = Some c"
| "run (e # es) c = (case step e c of None \<Rightarrow> None | Some c' \<Rightarrow> run es c')"

text \<open>
  Modelled from the spec: the service the handlers call, at the time \<open>now\<close> of the request:
  \<open>Started\<close> and \<open>AlreadyRunning\<close> give the job record, \<open>RateLimited\<close> an object with
  \<open>rateLimited: true\<close>.
\<close>

definition syncService :: "int \<Rightarrow> launch \<Rightarrow> coordinator sync_service" where
  "syncService now how =
     \<lparr>getSyncStatus = (\<lambda>n c. Inr (getStatus n c)),
      startSync = (\<lambda>n c. case start n now how c of
                            (Started j, c') \<Rightarrow> (Inr (JobRecord j), c')
                          | (AlreadyRunning j, c') \<Rightarrow> (Inr (JobRecord j), c')
                          | (RateLimited k r m, c') \<Rightarrow> (Inr (RateLimitError True k r m), c'))\<rparr>"

section \<open>services/image-s3-service.ts, the bulk check\<close>

subsection \<open>checkImageExistsInS3 and bulkCheckImagesInS3\<close>

definition checkImageExistsInS3 :: "env \<Rightarrow> nat \<Rightarrow> string \<Rightarrow> exn + bool" where
  "checkImageExistsInS3 env chainId address =
     (case s3_head_object env (object_key env chainId address) of
        Inl e \<Rightarrow> Inr False
      | Inr u \<Rightarrow> Inr True)"

record token =
  chainId :: nat
  address :: string

record checked = token +
  exists :: bool

text \<open>\<open>Promise.allSettled\<close>: one settled result for each promise, in the order given.\<close>

datatype 'a settled = Fulfilled 'a | Rejected exn

definition allSettled :: "(exn + 'a) list \<Rightarrow> 'a settled list" where
  "allSettled promises = map (\<lambda>p. case p of Inl e \<Rightarrow> Rejected e | Inr v \<Rightarrow> Fulfilled v) promises"

text \<open>
  The function with the per-token existence check as an argument, so that a check that
  rejects can be stated; \<open>bulkCheckImagesInS3\<close> below passes \<open>checkImageExistsInS3\<close>.
  The second \<open>map\<close> reads \<open>tokens[index]\<close> by the index of the settled result.
\<close>

definition bulkCheckImagesInS3_with ::
  "(nat \<Rightarrow> string \<Rightarrow> exn + bool) \<Rightarrow> token list \<Rightarrow> checked list" where
  "bulkCheckImagesInS3_with check tokens =
     (let results = allSettled
            (map (\<lambda>t. case check (chainId t) (address t) of
                         Inl e \<Rightarrow> Inl e
                       | Inr b \<Rightarrow> Inr \<lparr>chainId = chainId t, address = address t, exists = b\<rparr>)
                 tokens)
      in map (\<lambda>(result, index).
                \<lparr>chainId = chainId (tokens ! index), address = address (tokens ! index),
                 exists = (case result of Fulfilled v \<Rightarrow> exists v | Rejected e \<Rightarrow> False)\<rparr>)
             (zip results [0 ..< length results]))"

definition bulkCheckImagesInS3 :: "env \<Rightarrow> token list \<Rightarrow> checked list" where
  "bulkCheckImagesInS3 env tokens = bulkCheckImagesInS3_with (checkImageExistsInS3 env) tokens"

section \<open>A consistency condition and an example world\<close>

text \<open>
  The coordinator is consistent when no network identifier is in flight twice and the
  identifiers in flight are exactly those whose stored job is running.
\<close>

definition consistent :: "coordinator \<Rightarrow> bool" where
  "consistent c =
     (distinct (inflight c) \<and> (\<forall>n. (n \<in> set (inflight c)) = is_running (get n (store c))))"

text \<open>
  A small world to run the code in: a few values of \<open>Number\<close>, decimal printing (what the
  engine prints for every integer below \<open>10^21\<close>), one address, one object in the bucket for
  chain 8453 and one image file in the source directory for chain 137.
\<close>

definition example_address :: string where
  "example_address = ''0x00000000000000000000000000000000000000AA''"

definition example_Number :: "string \<Rightarrow> jsnum" where
  "example_Number s =
     (if s = ''8453'' then Fin 8453 else if s = ''137'' then Fin 137
      else if s = ''1'' then Fin 1 else if s = ''10'' then Fin 10
      else if s = ''-1'' then Fin (- 1) else if s = ''1.5'' then Fin (3 / 2) else NaN)"

fun decimal :: "nat \<Rightarrow> string" where
  "decimal n =
     (if n < 10 then [''0123456789'' ! n]
      else decimal (n div 10) @ [''0123456789'' ! (n mod 10)])"

declare decimal.simps [simp del]

definition example_get_object :: "string \<Rightarrow> exn + get_object_output" where
  "example_get_object key =
     (if key = ''8453/0x00000000000000000000000000000000000000aa/image''
      then Inr \<lparr>Body = Some (Stream [[1, 2], [3]] None),
                ContentType = Some ''binary/octet-stream'',
                Metadata_extension = Some ''PNG''\<rparr>
      else Inl (Error ''NoSuchKey''))"

definition example_head_object :: "string \<Rightarrow> exn + unit" where
  "example_head_object key =
     (if key = ''8453/0x00000000000000000000000000000000000000aa/image''
      then Inr () else Inl (Error ''NotFound''))"

definition example_readdir :: "path \<Rightarrow> exn + string list" where
  "example_readdir p =
     (if p = [''/app'', ''images'', ''137'', ''0x00000000000000000000000000000000000000aa'']
      then Inr [''info.json'', ''image.svg'']
      else Inl (Error ''ENOENT''))"

definition example_readFile :: "path \<Rightarrow> exn + bytes" where
  "example_readFile p =
     (if p = [''/app'', ''images'', ''137'', ''0x00000000000000000000000000000000000000aa'',
              ''image.svg'']
      then Inr [60, 115]
      else if p = [''/app'', ''images'', ''default.png''] then Inr [137, 80, 78]
      else Inl (Error ''ENOENT''))"

definition example_env :: env where
  "example_env =
     \<lparr>js_Number = example_Number, num_toString = decimal,
      isAddress = (\<lambda>a. a = example_address), cwd = ''/app'',
      s3_get_object = example_get_object, s3_head_object = example_head_object,
      readdir = example_readdir, readFile = example_readFile\<rparr>"

text \<open>
  A coordinator with a cooldown of 60000 ms: network 8453 is started at time 0; then its
  status is read, network 10 is started at time 5, and the job of network 8453 succeeds at
  time 20000.
\<close>

definition example_c0 :: coordinator where
  "example_c0 = initial 60000 (\<lambda>n r. ''wait'')"

definition example_c1 :: coordinator where
  "example_c1 = snd (start 8453 0 Launched example_c0)"

definition example_events :: "event list" where
  "example_events =
     [GetStatus 8453, Start 10 5 Launched, Complete 8453 20000 (ProviderOk ''done'')]"

definition example_c2 :: coordinator where
  "example_c2 = (case run example_events example_c1 of Some c \<Rightarrow> c | None \<Rightarrow> example_c1)"

section \<open>Properties of getMimeType\<close>

lemma lower_char_idem: "lower_char (lower_char c) = lower_char c"
  by (simp add: lower_char_def)

lemma toLowerCase_idem: "toLowerCase (toLowerCase s) = toLowerCase s"
  by (simp add: toLowerCase_def lower_char_idem)

lemma lower_char_dot: "(lower_char c = CHR ''.'') = (c = CHR ''.'')"
  by (simp add: lower_char_def)

lemma startsWith_dot_lower: "startsWith (toLowerCase s) ''.'' = startsWith s ''.''"
  by (cases s) (auto simp: startsWith_def toLowerCase_def lower_char_dot)

lemma slice1_lower: "slice1 (toLowerCase s) = toLowerCase (slice1 s)"
  by (simp add: slice1_def toLowerCase_def drop_map)

lemma normalized_lower: "normalized (toLowerCase e) = normalized e"
  by (simp add: normalized_def startsWith_dot_lower slice1_lower toLowerCase_idem)

lemma getMimeType_normalized:
  "getMimeType e =
     (let v = property_get mimeTypes (normalized e)
      in if truthy v then v else Str ''application/octet-stream'')"
  by (simp add: getMimeType_def normalized_def Let_def)

text \<open>Lower-casing the argument does not change the result.\<close>

lemma getMimeType_lower: "getMimeType (toLowerCase e) = getMimeType e"
  by (simp add: getMimeType_normalized normalized_lower)

text \<open>Neither does a dot put in front of an argument that has none.\<close>

lemma getMimeType_dot: "\<not> startsWith e ''.'' \<Longrightarrow> getMimeType (''.'' @ e) = getMimeType e"
  by (simp add: getMimeType_def startsWith_def slice1_def)

lemma toLowerCase_listed:
  "map toLowerCase [''png'', ''jpg'', ''jpeg'', ''webp'', ''svg'', ''gif'', ''bmp'', ''ico'',
                    ''tiff'', ''tif'', ''PNG'', ''constructor'', ''__proto__'']
   = [''png'', ''jpg'', ''jpeg'', ''webp'', ''svg'', ''gif'', ''bmp'', ''ico'',
      ''tiff'', ''tif'', ''png'', ''constructor'', ''__proto__'']"
  by (simp add: toLowerCase_def lower_char_def)

text \<open>The ten extensions of the table have their image types.\<close>

lemma getMimeType_listed:
  "map getMimeType [''png'', ''jpg'', ''jpeg'', ''webp'', ''svg'', ''gif'', ''bmp'', ''ico'',
                    ''tiff'', ''tif'']
   = map Str [''image/png'', ''image/jpeg'', ''image/jpeg'', ''image/webp'', ''image/svg+xml'',
              ''image/gif'', ''image/bmp'', ''image/x-icon'', ''image/tiff'', ''image/tiff'']"
  using toLowerCase_listed
  by (simp add: getMimeType_def startsWith_def property_get_def mimeTypes_def)

lemma getMimeType_png: "getMimeType ''png'' = Str ''image/png''"
  using getMimeType_listed by simp

lemma getMimeType_PNG: "getMimeType ''PNG'' = Str ''image/png''"
  using toLowerCase_listed
  by (simp add: getMimeType_def startsWith_def property_get_def mimeTypes_def)

text \<open>
  A string whose normal form is neither a key of the table nor a name inherited from
  \<open>Object.prototype\<close> gets the default type.
\<close>

lemma getMimeType_other:
  "normalized e \<notin> fst ` set mimeTypes \<Longrightarrow> normalized e \<notin> set object_prototype_names \<Longrightarrow>
   getMimeType e = Str ''application/octet-stream''"
  by (simp add: getMimeType_normalized property_get_def Let_def map_of_eq_None_iff [THEN iffD2])

text \<open>
  Claim C9: \<open>getMimeType\<close> is invariant under a leading dot and under lower-casing, maps the
  ten listed extensions to their image types and every other string to
  \<open>application/octet-stream\<close>, so its result is always a non-empty string.
  The invariance and the ten extensions are the lemmas above. The rest fails on the
  names an object literal inherits: for \<open>constructor\<close> and \<open>__proto__\<close> the lookup
  \<open>mimeTypes[...]\<close> finds a function and an object, both truthy, and \<open>getMimeType\<close> returns
  them, which is neither the default type nor a string at all.
\<close>

theorem getMimeType_inherited_names:
  "getMimeType ''constructor'' = Inherited ''constructor''
   \<and> getMimeType ''__proto__'' = Inherited ''__proto__''
   \<and> getMimeType ''constructor'' \<noteq> Str ''application/octet-stream''"
  using toLowerCase_listed
  by (simp add: getMimeType_def startsWith_def property_get_def mimeTypes_def
      object_prototype_names_def)

section \<open>The image lookups and the image route\<close>

text \<open>The copy loop fills the buffer with the chunks one after the other and never overruns it.\<close>

lemma total_length_from:
  "foldl (\<lambda>acc chunk. acc + length chunk) k chunks
     = k + foldl (\<lambda>acc chunk. acc + length chunk) 0 chunks"
proof (induction chunks arbitrary: k)
  case Nil
  then show ?case by simp
next
  case (Cons c cs)
  have "foldl (\<lambda>acc chunk. acc + length chunk) (k + length c) cs
          = (k + length c) + foldl (\<lambda>acc chunk. acc + length chunk) 0 cs"
    by (rule Cons.IH)
  moreover have "foldl (\<lambda>acc chunk. acc + length chunk) (0 + length c) cs
          = (0 + length c) + foldl (\<lambda>acc chunk. acc + length chunk) 0 cs"
    by (rule Cons.IH)
  ultimately show ?case by simp
qed

lemma total_length_Cons:
  "total_length (chunk # chunks) = length chunk + total_length chunks"
  using total_length_from [of "length chunk" chunks] by (simp add: total_length_def)

lemma copy_chunks_concat:
  "length pre = offset \<Longrightarrow> length post = total_length chunks \<Longrightarrow>
   copy_chunks chunks (pre @ post) offset = Inr (pre @ concat chunks)"
proof (induction chunks arbitrary: pre post offset)
  case Nil
  then show ?case by (simp add: total_length_def)
next
  case (Cons chunk chunks)
  from Cons.prems have post: "length post = length chunk + total_length chunks"
    by (simp add: total_length_Cons)
  then have set: "uint8_set (pre @ post) chunk offset = Inr ((pre @ chunk) @ drop (length chunk) post)"
    using Cons.prems(1) by (simp add: uint8_set_def)
  have "copy_chunks chunks ((pre @ chunk) @ drop (length chunk) post) (offset + length chunk)
          = Inr ((pre @ chunk) @ concat chunks)"
    using Cons.prems(1) post by (intro Cons.IH) simp_all
  with set show ?case by simp
qed

lemma read_all_done: "read_all vs None chunks = Inr (chunks @ vs)"
  by (induction vs arbitrary: chunks) simp_all

lemma copy_all_chunks:
  "copy_chunks chunks (new_Uint8Array (total_length chunks)) 0 = Inr (concat chunks)"
  using copy_chunks_concat [of "[]" 0 "new_Uint8Array (total_length chunks)" chunks]
  by (simp add: new_Uint8Array_def)

text \<open>
  When the object is there and its stream ends, the image returned holds the chunks of the
  stream, concatenated.
\<close>

lemma getImageFromS3_found:
  assumes "s3_get_object env (object_key env n a) = Inr response"
    and "Body response = Some (Stream vs None)"
  shows "\<exists>img. getImageFromS3 env n a = Inr (Some img) \<and> buffer img = concat vs"
  using assms
  by (auto simp: getImageFromS3_def getImageFromS3_try_def read_all_done copy_all_chunks
      Let_def split: option.split)

text \<open>A failing \<open>send\<close>, a failing read of the body and a failing \<open>readdir\<close> all end in \<open>null\<close>.\<close>

lemma getImageFromS3_send_throws:
  "s3_get_object env (object_key env n a) = Inl e \<Longrightarrow> getImageFromS3 env n a = Inr None"
  by (simp add: getImageFromS3_def getImageFromS3_try_def)

lemma read_all_throws: "read_all vs (Some e) chunks = Inl e"
  by (induction vs arbitrary: chunks) simp_all

lemma getImageFromS3_read_throws:
  assumes "s3_get_object env (object_key env n a) = Inr response"
    and "Body response = Some (Stream vs (Some e))"
  shows "getImageFromS3 env n a = Inr None"
  using assms by (simp add: getImageFromS3_def getImageFromS3_try_def read_all_throws)

lemma getImageFromSourceDir_readdir_throws:
  "readdir env (join [cwd env, ''images'', num_toString env n, toLowerCase a]) = Inl e \<Longrightarrow>
   getImageFromSourceDir env n a = Inr None"
  by (simp add: getImageFromSourceDir_def getImageFromSourceDir_try_def)

lemma getImageFromS3_returns: "\<exists>r. getImageFromS3 env n a = Inr r"
  by (simp add: getImageFromS3_def split: sum.split)

lemma getImageFromSourceDir_returns: "\<exists>r. getImageFromSourceDir env n a = Inr r"
  by (simp add: getImageFromSourceDir_def split: sum.split)

text \<open>
  Claim C8: whatever the storage does, thrown I/O errors included, \<open>getImageFromS3\<close> and
  \<open>getImageFromSourceDir\<close> each return a payload \<open>{buffer, contentType, extension?}\<close> or
  \<open>null\<close>, and never pass an exception on to the caller.
\<close>

theorem image_lookups_never_throw:
  "(\<exists>r. getImageFromS3 env n a = Inr r) \<and> (\<exists>r. getImageFromSourceDir env n a = Inr r)"
  by (simp add: getImageFromS3_returns getImageFromSourceDir_returns)

lemma default_extension: "split_dot_pop (path_string (defaultImagePath env)) = ''png''"
  by (simp add: defaultImagePath_def join_def split_dot_pop_def)

lemma default_response_ok:
  "readFile env (defaultImagePath env) = Inr bs \<Longrightarrow>
   default_response env =
     Inr (ImageResponse bs
            \<lparr>Content_Type = Str ''image/png'',
             Content_Length = num_toString env (length bs),
             Cache_Control = ''public, max-age=86400''\<rparr>)"
  by (simp add: default_response_def default_extension getMimeType_png)

text \<open>
  Claim C7: for a valid chain id and address the image route asks the object store first,
  the source directory only if the store gave no image, and reads the placeholder only if
  both gave none; an image that a lookup gave is served with the content type that lookup
  reported.
\<close>

theorem image_fallback_order:
  assumes "paramsSchema_parse env p a = Inr (n, addr)"
  shows "(\<exists>rest. snd (get_image env p a) = FromS3 n addr # rest)
       \<and> (FromSourceDir n addr \<in> set (snd (get_image env p a))
            \<longrightarrow> getImageFromS3 env n addr = Inr None)
       \<and> (DefaultImage (defaultImagePath env) \<in> set (snd (get_image env p a))
            \<longrightarrow> getImageFromS3 env n addr = Inr None
                \<and> getImageFromSourceDir env n addr = Inr None)
       \<and> (\<forall>img. getImageFromS3 env n addr = Inr (Some img)
            \<longrightarrow> get_image env p a =
                  (ImageResponse (buffer img)
                     \<lparr>Content_Type = contentType img,
                      Content_Length = num_toString env (length (buffer img)),
                      Cache_Control = ''public, max-age=86400''\<rparr>,
                   [FromS3 n addr]))
       \<and> (\<forall>img. getImageFromS3 env n addr = Inr None
                \<and> getImageFromSourceDir env n addr = Inr (Some img)
            \<longrightarrow> get_image env p a =
                  (ImageResponse (buffer img)
                     \<lparr>Content_Type = contentType img,
                      Content_Length = num_toString env (length (buffer img)),
                      Cache_Control = ''public, max-age=86400''\<rparr>,
                   [FromS3 n addr, FromSourceDir n addr]))
       \<and> (\<forall>bs. getImageFromS3 env n addr = Inr None
                \<and> getImageFromSourceDir env n addr = Inr None
                \<and> readFile env (defaultImagePath env) = Inr bs
            \<longrightarrow> get_image env p a =
                  (ImageResponse bs
                     \<lparr>Content_Type = Str ''image/png'',
                      Content_Length = num_toString env (length bs),
                      Cache_Control = ''public, max-age=86400''\<rparr>,
                   [FromS3 n addr, FromSourceDir n addr, DefaultImage (defaultImagePath env)]))"
proof -
  obtain r1 where r1: "getImageFromS3 env n addr = Inr r1"
    using getImageFromS3_returns by blast
  obtain r2 where r2: "getImageFromSourceDir env n addr = Inr r2"
    using getImageFromSourceDir_returns by blast
  show ?thesis
  proof (cases r1)
    case (Some img)
    with assms r1 show ?thesis
      by (simp add: get_image_def stored_response_def Let_def)
  next
    case None
    note s3 = this
    show ?thesis
    proof (cases r2)
      case (Some img)
      with assms r1 r2 s3 show ?thesis
        by (simp add: get_image_def stored_response_def Let_def)
    next
      case None
      with assms r1 r2 s3 show ?thesis
        by (auto simp: get_image_def default_response_ok)
    qed
  qed
qed

text \<open>The example world: what the three lookups give for the chains 8453, 137 and 10.\<close>

lemma example_lower:
  "toLowerCase example_address = ''0x00000000000000000000000000000000000000aa''"
  by (simp add: example_address_def toLowerCase_def lower_char_def)

lemma example_decimal:
  "decimal 8453 = ''8453''" "decimal 1 = ''1''" "decimal 10 = ''10''"
  "decimal 2 = ''2''" "decimal 3 = ''3''" "decimal (Suc 0) = ''1''" "decimal 137 = ''137''"
  by (simp_all add: decimal.simps [of 8453] decimal.simps [of 845] decimal.simps [of 84]
      decimal.simps [of 8] decimal.simps [of 1] decimal.simps [of 10] decimal.simps [of 2]
      decimal.simps [of 3] decimal.simps [of "Suc 0"] decimal.simps [of 137]
      decimal.simps [of 13])

lemma example_env_fields:
  "js_Number example_env = example_Number" "num_toString example_env = decimal"
  "cwd example_env = ''/app''" "s3_get_object example_env = example_get_object"
  "s3_head_object example_env = example_head_object" "readdir example_env = example_readdir"
  "readFile example_env = example_readFile"
  "isAddress example_env = (\<lambda>a. a = example_address)"
  by (simp_all add: example_env_def)

lemma example_parse:
  "paramsSchema_parse example_env ''8453'' example_address = Inr (8453, example_address)"
  "paramsSchema_parse example_env ''137'' example_address = Inr (137, example_address)"
  "paramsSchema_parse example_env ''10'' example_address = Inr (10, example_address)"
  by (simp_all add: paramsSchema_parse_def chainId_transform_def example_env_fields
      example_Number_def)

lemma example_key:
  "object_key example_env 8453 example_address =
     ''8453/0x00000000000000000000000000000000000000aa/image''"
  "object_key example_env 137 example_address =
     ''137/0x00000000000000000000000000000000000000aa/image''"
  "object_key example_env 10 example_address =
     ''10/0x00000000000000000000000000000000000000aa/image''"
  by (simp_all add: object_key_def example_lower example_decimal example_env_fields)

lemma example_s3_8453:
  "getImageFromS3 example_env 8453 example_address =
     Inr (Some \<lparr>buffer = [1, 2, 3], contentType = Str ''image/png'', extension = Some ''PNG''\<rparr>)"
proof -
  have g: "s3_get_object example_env ''8453/0x00000000000000000000000000000000000000aa/image'' =
     Inr \<lparr>Body = Some (Stream [[1, 2], [3]] None),
          ContentType = Some ''binary/octet-stream'',
          Metadata_extension = Some ''PNG''\<rparr>"
    by (simp add: example_env_fields example_get_object_def)
  show ?thesis
    by (simp add: getImageFromS3_def getImageFromS3_try_def example_key g getMimeType_PNG
        total_length_def new_Uint8Array_def uint8_set_def)
qed

lemma example_s3_none:
  "getImageFromS3 example_env 137 example_address = Inr None"
  "getImageFromS3 example_env 10 example_address = Inr None"
  by (simp_all add: getImageFromS3_def getImageFromS3_try_def example_key example_env_fields
      example_get_object_def)

lemma example_dir_137:
  "getImageFromSourceDir example_env 137 example_address =
     Inr (Some \<lparr>buffer = [60, 115], contentType = Str ''image/svg+xml'',
                extension = Some ''svg''\<rparr>)"
proof -
  have d: "readdir example_env
             [''/app'', ''images'', ''137'', ''0x00000000000000000000000000000000000000aa''] =
           Inr [''info.json'', ''image.svg'']"
    by (simp add: example_env_fields example_readdir_def)
  have f: "readFile example_env
             [''/app'', ''images'', ''137'', ''0x00000000000000000000000000000000000000aa'',
              ''image.svg''] = Inr [60, 115]"
    by (simp add: example_env_fields example_readFile_def)
  have c: "cwd example_env = ''/app''" "num_toString example_env 137 = ''137''"
    by (simp_all add: example_env_fields example_decimal)
  have m: "getMimeType ''svg'' = Str ''image/svg+xml''"
    using getMimeType_listed by simp
  show ?thesis
    by (simp add: getImageFromSourceDir_def getImageFromSourceDir_try_def join_def c
        example_lower d f startsWith_def split_dot_pop_def m)
qed

lemma example_dir_10: "getImageFromSourceDir example_env 10 example_address = Inr None"
proof -
  have c: "cwd example_env = ''/app''" "num_toString example_env 10 = ''10''"
    by (simp_all add: example_env_fields example_decimal)
  have d: "readdir example_env
             [''/app'', ''images'', ''10'', ''0x00000000000000000000000000000000000000aa''] =
           Inl (Error ''ENOENT'')"
    by (simp add: example_env_fields example_readdir_def)
  show ?thesis
    by (simp add: getImageFromSourceDir_def getImageFromSourceDir_try_def join_def c
        example_lower d)
qed

lemma example_default:
  "readFile example_env (defaultImagePath example_env) = Inr [137, 80, 78]"
  by (simp add: defaultImagePath_def join_def example_env_fields example_readFile_def)

theorem image_fallback_order_witness:
  "get_image example_env ''8453'' example_address =
     (ImageResponse [1, 2, 3]
        \<lparr>Content_Type = Str ''image/png'', Content_Length = ''3'',
         Cache_Control = ''public, max-age=86400''\<rparr>,
      [FromS3 8453 example_address])
   \<and> get_image example_env ''137'' example_address =
     (ImageResponse [60, 115]
        \<lparr>Content_Type = Str ''image/svg+xml'', Content_Length = ''2'',
         Cache_Control = ''public, max-age=86400''\<rparr>,
      [FromS3 137 example_address, FromSourceDir 137 example_address])
   \<and> get_image example_env ''10'' example_address =
     (ImageResponse [137, 80, 78]
        \<lparr>Content_Type = Str ''image/png'', Content_Length = ''3'',
         Cache_Control = ''public, max-age=86400''\<rparr>,
      [FromS3 10 example_address, FromSourceDir 10 example_address,
       DefaultImage [''/app'', ''images'', ''default.png'']])"
proof -
  have "decimal (Suc (Suc (Suc 0))) = ''3''" "decimal (Suc (Suc 0)) = ''2''"
    using example_decimal(4,5) by (simp_all only: numeral_2_eq_2 numeral_3_eq_3)
  then have n: "num_toString example_env (Suc (Suc (Suc 0))) = ''3''"
    "num_toString example_env (Suc (Suc 0)) = ''2''"
    by (simp_all add: example_env_fields)
  have p: "defaultImagePath example_env = [''/app'', ''images'', ''default.png'']"
    by (simp add: defaultImagePath_def join_def example_env_fields)
  from image_fallback_order [OF example_parse(1)] example_s3_8453 n
  have a: "get_image example_env ''8453'' example_address =
     (ImageResponse [1, 2, 3]
        \<lparr>Content_Type = Str ''image/png'', Content_Length = ''3'',
         Cache_Control = ''public, max-age=86400''\<rparr>,
      [FromS3 8453 example_address])"
    by simp
  from image_fallback_order [OF example_parse(2)] example_s3_none(1) example_dir_137 n
  have b: "get_image example_env ''137'' example_address =
     (ImageResponse [60, 115]
        \<lparr>Content_Type = Str ''image/svg+xml'', Content_Length = ''2'',
         Cache_Control = ''public, max-age=86400''\<rparr>,
      [FromS3 137 example_address, FromSourceDir 137 example_address])"
    by simp
  from image_fallback_order [OF example_parse(3)] example_s3_none(2) example_dir_10
    example_default n p
  have c: "get_image example_env ''10'' example_address =
     (ImageResponse [137, 80, 78]
        \<lparr>Content_Type = Str ''image/png'', Content_Length = ''3'',
         Cache_Control = ''public, max-age=86400''\<rparr>,
      [FromS3 10 example_address, FromSourceDir 10 example_address,
       DefaultImage [''/app'', ''images'', ''default.png'']])"
    by simp
  from a b c show ?thesis by simp
qed

section \<open>The bulk check\<close>

lemma bulk_length: "length (bulkCheckImagesInS3_with check tokens) = length tokens"
  by (simp add: bulkCheckImagesInS3_with_def allSettled_def Let_def)

lemma bulk_nth:
  assumes "i < length tokens"
  shows "bulkCheckImagesInS3_with check tokens ! i =
           \<lparr>chainId = chainId (tokens ! i), address = address (tokens ! i),
            exists = (case check (chainId (tokens ! i)) (address (tokens ! i)) of
                        Inl e \<Rightarrow> False | Inr b \<Rightarrow> b)\<rparr>"
  using assms
  by (simp add: bulkCheckImagesInS3_with_def allSettled_def Let_def split: sum.split)

lemma checkImageExistsInS3_returns: "\<exists>b. checkImageExistsInS3 env n a = Inr b"
  by (cases "s3_head_object env (object_key env n a)") (auto simp: checkImageExistsInS3_def)

text \<open>
  Claim C10: \<open>bulkCheckImagesInS3\<close> returns a list of the length and in the order of its
  input, the i-th element carrying the chain id and the address of the i-th token, with
  \<open>exists\<close> false whenever the existence check of that token did not fulfil (and what the
  check answered when it did).
\<close>

theorem bulk_check_keeps_tokens:
  "length (bulkCheckImagesInS3_with check tokens) = length tokens
   \<and> (\<forall>i < length tokens.
         chainId (bulkCheckImagesInS3_with check tokens ! i) = chainId (tokens ! i)
       \<and> address (bulkCheckImagesInS3_with check tokens ! i) = address (tokens ! i)
       \<and> (\<forall>e. check (chainId (tokens ! i)) (address (tokens ! i)) = Inl e
              \<longrightarrow> \<not> exists (bulkCheckImagesInS3_with check tokens ! i))
       \<and> (\<forall>b. check (chainId (tokens ! i)) (address (tokens ! i)) = Inr b
              \<longrightarrow> exists (bulkCheckImagesInS3_with check tokens ! i) = b))
   \<and> bulkCheckImagesInS3 env tokens = bulkCheckImagesInS3_with (checkImageExistsInS3 env) tokens"
  by (simp add: bulk_length bulk_nth bulkCheckImagesInS3_def)

theorem bulk_check_keeps_tokens_witness:
  "length (bulkCheckImagesInS3_with
             (\<lambda>c a. if c = 10 then Inl (Error ''timeout'') else Inr (c = 8453))
             [\<lparr>chainId = 8453, address = ''0xaa''\<rparr>, \<lparr>chainId = 10, address = ''0xbb''\<rparr>,
              \<lparr>chainId = 137, address = ''0xcc''\<rparr>]) = 3
   \<and> chainId (bulkCheckImagesInS3_with
             (\<lambda>c a. if c = 10 then Inl (Error ''timeout'') else Inr (c = 8453))
             [\<lparr>chainId = 8453, address = ''0xaa''\<rparr>, \<lparr>chainId = 10, address = ''0xbb''\<rparr>,
              \<lparr>chainId = 137, address = ''0xcc''\<rparr>] ! 1) = 10
   \<and> address (bulkCheckImagesInS3_with
             (\<lambda>c a. if c = 10 then Inl (Error ''timeout'') else Inr (c = 8453))
             [\<lparr>chainId = 8453, address = ''0xaa''\<rparr>, \<lparr>chainId = 10, address = ''0xbb''\<rparr>,
              \<lparr>chainId = 137, address = ''0xcc''\<rparr>] ! 1) = ''0xbb''
   \<and> \<not> exists (bulkCheckImagesInS3_with
             (\<lambda>c a. if c = 10 then Inl (Error ''timeout'') else Inr (c = 8453))
             [\<lparr>chainId = 8453, address = ''0xaa''\<rparr>, \<lparr>chainId = 10, address = ''0xbb''\<rparr>,
              \<lparr>chainId = 137, address = ''0xcc''\<rparr>] ! 1)"
proof -
  let ?check = "\<lambda>c a. if c = (10::nat) then Inl (Error ''timeout'') else Inr (c = 8453)"
  let ?tokens = "[\<lparr>chainId = 8453, address = ''0xaa''\<rparr>, \<lparr>chainId = 10, address = ''0xbb''\<rparr>,
                  \<lparr>chainId = 137, address = ''0xcc''\<rparr>]"
  have i: "(1::nat) < length ?tokens" by simp
  have r: "?check (chainId (?tokens ! 1)) (address (?tokens ! 1)) = Inl (Error ''timeout'')"
    by simp
  from bulk_check_keeps_tokens [of ?check ?tokens example_env]
  have "length (bulkCheckImagesInS3_with ?check ?tokens) = length ?tokens"
    and "\<forall>i < length ?tokens.
           chainId (bulkCheckImagesInS3_with ?check ?tokens ! i) = chainId (?tokens ! i)
         \<and> address (bulkCheckImagesInS3_with ?check ?tokens ! i) = address (?tokens ! i)
         \<and> (\<forall>e. ?check (chainId (?tokens ! i)) (address (?tokens ! i)) = Inl e
                \<longrightarrow> \<not> exists (bulkCheckImagesInS3_with ?check ?tokens ! i))
         \<and> (\<forall>b. ?check (chainId (?tokens ! i)) (address (?tokens ! i)) = Inr b
                \<longrightarrow> exists (bulkCheckImagesInS3_with ?check ?tokens ! i) = b)"
    by blast+
  with i r show ?thesis by simp
qed

section \<open>The sync coordinator\<close>

subsection \<open>What a call of start does to the state\<close>

lemma start_running:
  "is_running (get n (store c)) \<Longrightarrow> snd (start n now how c) = c"
  by (cases "get n (store c)") (simp_all add: start_def Let_def)

lemma start_denied:
  assumes "\<not> is_running (get n (store c))" and "limiter c n = Some prev"
    and "now - prev < cooldown c"
  shows "start n now how c =
           (RateLimited n (cooldown c - (now - prev))
              (wait_message c n (cooldown c - (now - prev))), c)"
  using assms by (simp add: start_def Let_def checkAndRecord_def)

lemma start_allowed:
  assumes "\<not> is_running (get n (store c))"
    and "limiter c n = None \<or> (\<exists>prev. limiter c n = Some prev \<and> cooldown c \<le> now - prev)"
  shows "start n now how c =
           (case how of
              Launched \<Rightarrow>
                (Started \<lparr>status = Running, startedAt = now, finishedAt = None,
                          result = None, error = None\<rparr>,
                 c\<lparr>store := put n \<lparr>status = Running, startedAt = now, finishedAt = None,
                                     result = None, error = None\<rparr> (store c),
                   limiter := (limiter c)(n \<mapsto> now), inflight := n # inflight c\<rparr>)
            | ThrewBeforeLaunch err \<Rightarrow>
                (Started \<lparr>status = Failed, startedAt = now, finishedAt = Some now,
                          result = None, error = Some err\<rparr>,
                 c\<lparr>store := put n \<lparr>status = Failed, startedAt = now, finishedAt = Some now,
                                     result = None, error = Some err\<rparr> (store c),
                   limiter := (limiter c)(n \<mapsto> now)\<rparr>))"
  using assms
  by (cases how)
     (auto simp: start_def Let_def checkAndRecord_def compareAndSetRunning_def put_def)

text \<open>The three ways a call of \<open>start\<close> can go.\<close>

lemma start_cases:
  obtains (running) j where "get n (store c) = Some j" "status j = Running"
      "start n now how c = (AlreadyRunning j, c)"
  | (denied) prev where "\<not> is_running (get n (store c))" "limiter c n = Some prev"
      "now - prev < cooldown c"
  | (allowed) "\<not> is_running (get n (store c))"
      "limiter c n = None \<or> (\<exists>prev. limiter c n = Some prev \<and> cooldown c \<le> now - prev)"
proof (cases "is_running (get n (store c))")
  case True
  then obtain j where "get n (store c) = Some j" "status j = Running"
    by (cases "get n (store c)") simp_all
  moreover from this have "start n now how c = (AlreadyRunning j, c)"
    by (simp add: start_def Let_def)
  ultimately show ?thesis by (rule running)
next
  case False
  show ?thesis
  proof (cases "limiter c n")
    case None
    with False show ?thesis by (intro allowed) simp_all
  next
    case (Some prev)
    show ?thesis
    proof (cases "now - prev < cooldown c")
      case True
      with False Some show ?thesis by (intro denied)
    next
      case False
      with \<open>\<not> is_running (get n (store c))\<close> Some show ?thesis
        by (intro allowed) simp_all
    qed
  qed
qed

subsection \<open>At most one running job for a network\<close>

lemma start_consistent:
  assumes "consistent c"
  shows "consistent (snd (start n now how c))"
proof (cases rule: start_cases [of n c now how])
  case (running j)
  with assms show ?thesis by simp
next
  case (denied prev)
  with assms show ?thesis by (simp add: start_denied)
next
  case allowed
  from allowed(1) assms have fresh: "n \<notin> set (inflight c)"
    by (simp add: consistent_def)
  show ?thesis
  proof (cases how)
    case Launched
    with allowed assms fresh show ?thesis
      by (simp add: start_allowed consistent_def put_def get_def)
  next
    case (ThrewBeforeLaunch err)
    with allowed assms fresh show ?thesis
      by (auto simp: start_allowed consistent_def put_def get_def)
  qed
qed

lemma complete_consistent:
  assumes "consistent c" and "n \<in> set (inflight c)"
  shows "consistent (complete n now res c)"
proof -
  from assms obtain j where j: "get n (store c) = Some j"
    by (cases "get n (store c)") (auto simp: consistent_def)
  from assms have "distinct (inflight c)" by (simp add: consistent_def)
  then have gone: "set (remove1 n (inflight c)) = set (inflight c) - {n}"
    and still: "distinct (remove1 n (inflight c))"
    by simp_all
  from assms j gone still show ?thesis
    by (cases res) (auto simp: consistent_def complete_def put_def get_def)
qed

lemma step_consistent: "consistent c \<Longrightarrow> step e c = Some c' \<Longrightarrow> consistent c'"
  by (cases e) (auto simp: start_consistent complete_consistent split: if_splits)

lemma run_consistent: "consistent c \<Longrightarrow> run es c = Some c' \<Longrightarrow> consistent c'"
proof (induction es arbitrary: c)
  case Nil
  then show ?case by simp
next
  case (Cons e es)
  then show ?case by (auto split: option.splits dest: step_consistent)
qed

lemma initial_consistent: "consistent (initial cd msg)"
  by (simp add: consistent_def initial_def get_def)

lemma filter_absent: "n \<notin> set xs \<Longrightarrow> filter (\<lambda>m. m = n) xs = []"
  by (induction xs) auto

lemma distinct_count: "distinct xs \<Longrightarrow> length (filter (\<lambda>m. m = n) xs) \<le> Suc 0"
  by (induction xs) (auto simp: filter_absent)

text \<open>
  Claim C2: in every state the coordinator reaches by \<open>getStatus\<close>, \<open>start\<close> and
  provider completions, in any number and order, a network has at most one running job:
  at most one provider call for it is in flight, and it is in flight exactly when the
  store holds a running record for it.
\<close>

theorem at_most_one_running:
  assumes "run es (initial cd msg) = Some c"
  shows "length (filter (\<lambda>m. m = n) (inflight c)) \<le> 1
       \<and> (n \<in> set (inflight c)) = is_running (getStatus n c)"
  using run_consistent [OF initial_consistent assms]
  by (simp add: consistent_def distinct_count getStatus_def)

lemmas example_unfold = example_c0_def example_c1_def example_events_def example_c2_def
  initial_def start_def Let_def checkAndRecord_def compareAndSetRunning_def put_def get_def
  complete_def getStatus_def

text \<open>The example run, with two callers starting network 8453 at the same instant.\<close>

lemma example_run:
  "run (Start 8453 0 Launched # Start 8453 0 Launched # example_events) (initial 60000 (\<lambda>n r. ''wait''))
     = Some example_c2"
  by (simp add: example_unfold)

lemma example_c2_status:
  "getStatus 8453 example_c2 =
     Some \<lparr>status = Succeeded, startedAt = 0, finishedAt = Some 20000,
           result = Some ''done'', error = None\<rparr>"
  "getStatus 10 example_c2 =
     Some \<lparr>status = Running, startedAt = 5, finishedAt = None, result = None, error = None\<rparr>"
  "getStatus 137 example_c2 = None"
  "inflight example_c2 = [10]"
  "cooldown example_c2 = 60000"
  by (simp_all add: example_unfold)

theorem at_most_one_running_witness:
  "run (Start 8453 0 Launched # Start 8453 0 Launched # example_events) (initial 60000 (\<lambda>n r. ''wait''))
     = Some example_c2
   \<and> length (filter (\<lambda>m. m = 8453) (inflight example_c2)) \<le> 1
   \<and> \<not> is_running (getStatus 8453 example_c2)
   \<and> length (filter (\<lambda>m. m = 10) (inflight example_c2)) \<le> 1
   \<and> is_running (getStatus 10 example_c2)"
  using at_most_one_running [OF example_run, of 8453] at_most_one_running [OF example_run, of 10]
    example_run example_c2_status(4)
  by simp

subsection \<open>The cooldown\<close>

lemma start_limiter_other:
  "m \<noteq> n \<Longrightarrow> limiter (snd (start m now how c)) n = limiter c n"
  by (cases how)
     (simp_all add: start_def Let_def checkAndRecord_def compareAndSetRunning_def
           split: option.split)

lemma start_cooldown: "cooldown (snd (start m now how c)) = cooldown c"
  by (cases how)
     (simp_all add: start_def Let_def checkAndRecord_def compareAndSetRunning_def
           split: option.split)

lemma complete_limiter: "limiter (complete m now res c) = limiter c"
  by (simp add: complete_def split: option.split)

lemma complete_cooldown: "cooldown (complete m now res c) = cooldown c"
  by (simp add: complete_def split: option.split)

text \<open>Nothing but a \<open>start\<close> for a network touches the time of its last accepted attempt.\<close>

lemma step_keeps_limiter:
  assumes "step e c = Some c'" and "\<forall>t h. e \<noteq> Start n t h"
  shows "limiter c' n = limiter c n \<and> cooldown c' = cooldown c"
proof (cases e)
  case (GetStatus m)
  with assms show ?thesis by simp
next
  case (Start m t h)
  with assms have "m \<noteq> n" by auto
  with Start assms show ?thesis
    using start_limiter_other [of m n t h c] start_cooldown [of m t h c] by auto
next
  case (Complete m t r)
  with assms show ?thesis
    by (auto simp: complete_limiter complete_cooldown split: if_splits)
qed

lemma run_keeps_limiter:
  "run es c = Some c' \<Longrightarrow> \<forall>e \<in> set es. \<forall>t h. e \<noteq> Start n t h \<Longrightarrow>
   limiter c' n = limiter c n \<and> cooldown c' = cooldown c"
proof (induction es arbitrary: c)
  case Nil
  then show ?case by simp
next
  case (Cons e es)
  from Cons.prems obtain c1 where s: "step e c = Some c1" and r: "run es c1 = Some c'"
    by (auto split: option.splits)
  from Cons.prems have "\<forall>t h. e \<noteq> Start n t h" by simp
  with s have "limiter c1 n = limiter c n \<and> cooldown c1 = cooldown c"
    by (rule step_keeps_limiter)
  moreover from Cons.prems have "\<forall>e \<in> set es. \<forall>t h. e \<noteq> Start n t h" by simp
  with r have "limiter c' n = limiter c1 n \<and> cooldown c' = cooldown c1"
    by (rule Cons.IH)
  ultimately show ?case by simp
qed

lemma start_Started_records:
  "start n t1 how c0 = (Started j, c1) \<Longrightarrow> limiter c1 n = Some t1 \<and> cooldown c1 = cooldown c0"
  by (cases how)
     (auto simp: start_def Let_def checkAndRecord_def compareAndSetRunning_def
           split: option.splits if_splits)

text \<open>A start exactly at the end of the cooldown is allowed.\<close>

lemma start_at_boundary:
  assumes "\<not> is_running (get n (store c))" and "limiter c n = Some prev"
  shows "\<exists>j c'. start n (prev + cooldown c) Launched c = (Started j, c')"
  using assms start_allowed [of n c "prev + cooldown c" Launched] by simp

text \<open>
  Claim C1: two calls of \<open>start(n)\<close> within the cooldown window, with no job for \<open>n\<close> running
  at the second: the second call is rate limited, and its remaining time is
  \<open>cooldownDuration - (now - lastAttemptAt)\<close>, more than zero and at most the cooldown.
  Here the first call, at \<open>t1\<close>, launched a job; between the two calls anything may happen
  but a \<open>start\<close> for \<open>n\<close>; the second call is at \<open>t2\<close>.
\<close>

theorem second_start_rate_limited:
  assumes first: "start n t1 how c0 = (Started j, c1)"
    and between: "run es c1 = Some c2" "\<forall>e \<in> set es. \<forall>t h. e \<noteq> Start n t h"
    and idle: "\<not> is_running (getStatus n c2)"
    and window: "t1 \<le> t2" "t2 - t1 < cooldown c2"
  shows "\<exists>remaining msg.
           start n t2 how' c2 = (RateLimited n remaining msg, c2)
         \<and> remaining = cooldown c2 - (t2 - t1)
         \<and> 0 < remaining \<and> remaining \<le> cooldown c2"
proof -
  from first have "limiter c1 n = Some t1" by (simp add: start_Started_records)
  with between have prev: "limiter c2 n = Some t1"
    using run_keeps_limiter [of es c1 c2 n] by simp
  from idle have "\<not> is_running (get n (store c2))" by (simp add: getStatus_def)
  from start_denied [OF this prev window(2)]
  have "start n t2 how' c2 =
          (RateLimited n (cooldown c2 - (t2 - t1))
             (wait_message c2 n (cooldown c2 - (t2 - t1))), c2)" .
  with window show ?thesis by simp
qed

theorem second_start_rate_limited_witness:
  "start 8453 0 Launched example_c0 =
     (Started \<lparr>status = Running, startedAt = 0, finishedAt = None, result = None, error = None\<rparr>,
      example_c1)
   \<and> run example_events example_c1 = Some example_c2
   \<and> \<not> is_running (getStatus 8453 example_c2)
   \<and> (\<exists>remaining msg.
          start 8453 30000 Launched example_c2 = (RateLimited 8453 remaining msg, example_c2)
        \<and> remaining = 30000 \<and> 0 < remaining \<and> remaining \<le> 60000)"
proof -
  have first: "start 8453 0 Launched example_c0 =
     (Started \<lparr>status = Running, startedAt = 0, finishedAt = None, result = None, error = None\<rparr>,
      example_c1)"
    by (simp add: example_unfold)
  have between: "run example_events example_c1 = Some example_c2"
    by (simp add: example_unfold)
  have none: "\<forall>e \<in> set example_events. \<forall>t h. e \<noteq> Start 8453 t h"
    by (simp add: example_events_def)
  have idle: "\<not> is_running (getStatus 8453 example_c2)"
    by (simp add: example_c2_status)
  have window: "(0::int) \<le> 30000" "30000 - 0 < cooldown example_c2"
    by (simp_all add: example_c2_status)
  from second_start_rate_limited [OF first between none idle window, of Launched]
    example_c2_status(5) first between idle
  show ?thesis by simp
qed

section \<open>The sync routes\<close>

lemma chainId_transform_invalid:
  "isNaN (js_Number env p) \<or> \<not> isInteger (js_Number env p) \<or> lt0 (js_Number env p) \<Longrightarrow>
   syncParamsSchema_parse env p =
     Inl (Error (''chainId must be a valid positive integer value: '' @ p))"
  by (auto simp: syncParamsSchema_parse_def chainId_transform_def Let_def)

text \<open>The parse never ends in a \<open>ZodError\<close>, so the 400 branch of the two sync routes is dead.\<close>

lemma syncParamsSchema_never_ZodError: "syncParamsSchema_parse env p \<noteq> Inl (ZodError issues)"
  by (simp add: syncParamsSchema_parse_def chainId_transform_def Let_def)

text \<open>The example world: the sync service on the example coordinator.\<close>

lemma example_sync_parse:
  "syncParamsSchema_parse example_env ''8453'' = Inr 8453"
  "syncParamsSchema_parse example_env ''137'' = Inr 137"
  by (simp_all add: syncParamsSchema_parse_def chainId_transform_def example_env_fields
      example_Number_def)

lemma example_c1_status:
  "getSyncStatus (syncService now how) 8453 example_c1 =
     Inr (Some \<lparr>status = Running, startedAt = 0, finishedAt = None, result = None,
                error = None\<rparr>)"
  by (simp add: syncService_def example_unfold)

lemma example_c2_sync_status:
  "getSyncStatus (syncService now how) 8453 example_c2 =
     Inr (Some \<lparr>status = Succeeded, startedAt = 0, finishedAt = Some 20000,
                result = Some ''done'', error = None\<rparr>)"
  "getSyncStatus (syncService now how) 137 example_c2 = Inr None"
  by (simp_all add: syncService_def example_c2_status)

lemma example_c2_limiter:
  "limiter example_c2 8453 = Some 0" "limiter example_c2 137 = None"
  "wait_message example_c2 = (\<lambda>n r. ''wait'')"
  by (simp_all add: example_unfold)

lemma example_start_denied:
  "startSync (syncService 30000 Launched) 8453 example_c2 =
     (Inr (RateLimitError True 8453 30000 ''wait''), example_c2)"
proof -
  have "\<not> is_running (get 8453 (store example_c2))"
    using example_c2_status(1) by (simp add: getStatus_def)
  from start_denied [OF this example_c2_limiter(1), of 30000 Launched]
  have "start 8453 30000 Launched example_c2 = (RateLimited 8453 30000 ''wait'', example_c2)"
    by (simp add: example_c2_status(5) example_c2_limiter(3))
  then show ?thesis by (simp add: syncService_def)
qed

lemma example_start_allowed:
  "startSync (syncService 30000 Launched) 137 example_c2 =
     (Inr (JobRecord \<lparr>status = Running, startedAt = 30000, finishedAt = None, result = None,
                      error = None\<rparr>),
      snd (start 137 30000 Launched example_c2))"
proof -
  have "\<not> is_running (get 137 (store example_c2))"
    using example_c2_status(3) by (simp add: getStatus_def)
  from start_allowed [OF this, of 30000 Launched] example_c2_limiter(2)
  have "fst (start 137 30000 Launched example_c2) =
          Started \<lparr>status = Running, startedAt = 30000, finishedAt = None, result = None,
                   error = None\<rparr>"
    by simp
  then show ?thesis
    by (cases "start 137 30000 Launched example_c2") (simp add: syncService_def)
qed

text \<open>
  Claim C3: a request to \<open>GET /sync/:chainId\<close> or \<open>GET /sync/:chainId/status\<close> whose
  \<open>chainId\<close> is not a non-negative integer gets a 4xx response with validation details,
  and the sync service is not called.
  The service is indeed not called, but the response is not a 4xx: the transform throws a
  plain \<open>Error\<close>, which is not a \<open>ZodError\<close>, so the \<open>catch\<close> block answers 500
  \<open>Internal server error\<close>.
\<close>

theorem invalid_chainId_answers_500:
  assumes "isNaN (js_Number env p) \<or> \<not> isInteger (js_Number env p) \<or> lt0 (js_Number env p)"
  shows "get_sync env svc p s =
           (JsonResponse 500
              (JObj [(''error'', JStr ''Internal server error''),
                     (''message'',
                      JStr (''chainId must be a valid positive integer value: '' @ p))]),
            s, [])
       \<and> get_sync_status env svc p s =
           (JsonResponse 500
              (JObj [(''error'', JStr ''Internal server error''),
                     (''message'',
                      JStr (''chainId must be a valid positive integer value: '' @ p))]),
            s, [])"
  using chainId_transform_invalid [OF assms]
  by (simp add: get_sync_def get_sync_status_def)

theorem invalid_chainId_answers_500_witness:
  "isNaN (js_Number example_env ''abc'')
   \<and> get_sync example_env (syncService 0 Launched) ''abc'' example_c0 =
       (JsonResponse 500
          (JObj [(''error'', JStr ''Internal server error''),
                 (''message'', JStr ''chainId must be a valid positive integer value: abc'')]),
        example_c0, [])
   \<and> get_sync_status example_env (syncService 0 Launched) ''abc'' example_c0 =
       (JsonResponse 500
          (JObj [(''error'', JStr ''Internal server error''),
                 (''message'', JStr ''chainId must be a valid positive integer value: abc'')]),
        example_c0, [])"
proof -
  have nan: "isNaN (js_Number example_env ''abc'')"
    by (simp add: example_env_fields example_Number_def)
  then have "isNaN (js_Number example_env ''abc'') \<or> \<not> isInteger (js_Number example_env ''abc'')
             \<or> lt0 (js_Number example_env ''abc'')"
    by simp
  from invalid_chainId_answers_500 [OF this, of "syncService 0 Launched" example_c0] nan
  show ?thesis by simp
qed

text \<open>
  Claim C4: when \<open>getSyncStatus\<close> returns a record whose status is running,
  \<open>GET /sync/:chainId\<close> answers 200 with exactly that record and does not call
  \<open>startSync\<close>: the service state is the one before the request.
\<close>

theorem running_job_returned_as_is:
  assumes "syncParamsSchema_parse env p = Inr n"
    and "getSyncStatus svc n s = Inr (Some j)"
    and "status j = Running"
  shows "get_sync env svc p s =
           (JsonResponse 200 (JObj [(''success'', JBool True), (''data'', JJob j)]),
            s, [GetSyncStatus n])"
  using assms by (simp add: get_sync_def)

theorem running_job_returned_as_is_witness:
  "syncParamsSchema_parse example_env ''8453'' = Inr 8453
   \<and> getSyncStatus (syncService 10 Launched) 8453 example_c1 =
       Inr (Some \<lparr>status = Running, startedAt = 0, finishedAt = None, result = None,
                  error = None\<rparr>)
   \<and> get_sync example_env (syncService 10 Launched) ''8453'' example_c1 =
       (JsonResponse 200
          (JObj [(''success'', JBool True),
                 (''data'', JJob \<lparr>status = Running, startedAt = 0, finishedAt = None,
                                  result = None, error = None\<rparr>)]),
        example_c1, [GetSyncStatus 8453])"
proof -
  have running: "status \<lparr>status = Running, startedAt = 0, finishedAt = None, result = None,
                        error = None\<rparr> = Running"
    by simp
  from running_job_returned_as_is [OF example_sync_parse(1) example_c1_status running]
    example_sync_parse(1) example_c1_status [of 10 Launched]
  show ?thesis by simp
qed

text \<open>
  Claim C5: with no running job, \<open>GET /sync/:chainId\<close> answers a rate-limit rejection of
  \<open>startSync\<close> with 429 and a body holding \<open>rateLimited: true\<close>, the network identifier,
  \<open>remainingTime\<close> and a message, and every other outcome with 200 and the job record.
\<close>

theorem start_outcome_mapping:
  assumes "syncParamsSchema_parse env p = Inr n"
    and "getSyncStatus svc n s = Inr existing"
    and "\<not> is_running existing"
    and "startSync svc n s = (Inr r, s')"
  shows "get_sync env svc p s =
           (if isRateLimitError r
            then JsonResponse 429
                   (JObj [(''success'', JBool False),
                          (''error'', JStr ''Rate limit exceeded''),
                          (''data'', JObj [(''rateLimited'', JBool True),
                                           (''chainId'', JNum (int (rl_chainId r))),
                                           (''remainingTime'', JNum (remainingTime r)),
                                           (''message'', JStr (message r))])])
            else JsonResponse 200
                   (JObj [(''success'', JBool True), (''data'', json_of_sync_result r)]),
            s', [GetSyncStatus n, StartSync n])"
  using assms by (cases existing) (simp_all add: get_sync_def get_sync_start_def)

theorem start_outcome_mapping_witness:
  "get_sync example_env (syncService 30000 Launched) ''8453'' example_c2 =
     (JsonResponse 429
        (JObj [(''success'', JBool False),
               (''error'', JStr ''Rate limit exceeded''),
               (''data'', JObj [(''rateLimited'', JBool True),
                                (''chainId'', JNum 8453),
                                (''remainingTime'', JNum 30000),
                                (''message'', JStr ''wait'')])]),
      example_c2, [GetSyncStatus 8453, StartSync 8453])
   \<and> get_sync example_env (syncService 30000 Launched) ''137'' example_c2 =
     (JsonResponse 200
        (JObj [(''success'', JBool True),
               (''data'', JJob \<lparr>status = Running, startedAt = 30000, finishedAt = None,
                                result = None, error = None\<rparr>)]),
      snd (start 137 30000 Launched example_c2), [GetSyncStatus 137, StartSync 137])"
proof -
  have idle: "\<not> is_running (Some \<lparr>status = Succeeded, startedAt = 0, finishedAt = Some 20000,
                                   result = Some ''done'', error = None\<rparr>)"
    "\<not> is_running None"
    by simp_all
  from start_outcome_mapping
         [OF example_sync_parse(1) example_c2_sync_status(1) idle(1) example_start_denied]
  have a: "get_sync example_env (syncService 30000 Launched) ''8453'' example_c2 =
     (JsonResponse 429
        (JObj [(''success'', JBool False),
               (''error'', JStr ''Rate limit exceeded''),
               (''data'', JObj [(''rateLimited'', JBool True),
                                (''chainId'', JNum 8453),
                                (''remainingTime'', JNum 30000),
                                (''message'', JStr ''wait'')])]),
      example_c2, [GetSyncStatus 8453, StartSync 8453])"
    by simp
  from start_outcome_mapping
         [OF example_sync_parse(2) example_c2_sync_status(2) idle(2) example_start_allowed]
  have b: "get_sync example_env (syncService 30000 Launched) ''137'' example_c2 =
     (JsonResponse 200
        (JObj [(''success'', JBool True),
               (''data'', JJob \<lparr>status = Running, startedAt = 30000, finishedAt = None,
                                result = None, error = None\<rparr>)]),
      snd (start 137 30000 Launched example_c2), [GetSyncStatus 137, StartSync 137])"
    by simp
  from a b show ?thesis by (rule conjI)
qed

text \<open>
  Claim C6: for a well-formed \<open>chainId\<close>, \<open>GET /sync/:chainId/status\<close> calls
  \<open>getSyncStatus\<close> only, and answers 200 with the record when there is one and with an
  explicit no-record body when there is none; the service state stays as it was.
\<close>

theorem status_route_only_reads:
  assumes "syncParamsSchema_parse env p = Inr n"
    and "getSyncStatus svc n s = Inr found"
  shows "get_sync_status env svc p s =
           (JsonResponse 200
              (case found of
                 Some j \<Rightarrow> JObj [(''success'', JBool True), (''data'', JJob j)]
               | None \<Rightarrow>
                   JObj [(''success'', JBool True), (''data'', JNull),
                         (''message'',
                          JStr (''No sync process found for chain '' @ num_toString env n))]),
            s, [GetSyncStatus n])"
  using assms by (cases found) (simp_all add: get_sync_status_def)

theorem status_route_only_reads_witness:
  "get_sync_status example_env (syncService 30000 Launched) ''8453'' example_c2 =
     (JsonResponse 200
        (JObj [(''success'', JBool True),
               (''data'', JJob \<lparr>status = Succeeded, startedAt = 0, finishedAt = Some 20000,
                                result = Some ''done'', error = None\<rparr>)]),
      example_c2, [GetSyncStatus 8453])
   \<and> get_sync_status example_env (syncService 30000 Launched) ''137'' example_c2 =
     (JsonResponse 200
        (JObj [(''success'', JBool True), (''data'', JNull),
               (''message'', JStr ''No sync process found for chain 137'')]),
      example_c2, [GetSyncStatus 137])"
proof -
  have n: "num_toString example_env 137 = ''137''"
    by (simp add: example_env_fields example_decimal)
  from status_route_only_reads [OF example_sync_parse(1) example_c2_sync_status(1)]
  have a: "get_sync_status example_env (syncService 30000 Launched) ''8453'' example_c2 =
     (JsonResponse 200
        (JObj [(''success'', JBool True),
               (''data'', JJob \<lparr>status = Succeeded, startedAt = 0, finishedAt = Some 20000,
                                result = Some ''done'', error = None\<rparr>)]),
      example_c2, [GetSyncStatus 8453])"
    by simp
  from status_route_only_reads [OF example_sync_parse(2) example_c2_sync_status(2)] n
  have b: "get_sync_status example_env (syncService 30000 Launched) ''137'' example_c2 =
     (JsonResponse 200
        (JObj [(''success'', JBool True), (''data'', JNull),
               (''message'', JStr ''No sync process found for chain 137'')]),
      example_c2, [GetSyncStatus 137])"
    by simp
  from a b show ?thesis by (rule conjI)
qed

end
